theory Spec2Isabelle
  imports Complex_Main "HOL-Library.Word"
begin

section \<open>Scene manager of the CS330 desk scene\<close>

text \<open>
  This theory embeds \<^verbatim>\<open>Source/SceneManager.cpp\<close>: the texture registry, the material
  table, the transform composer and the scene script. Conventions of the embedding:
  \<^item> \<^verbatim>\<open>float\<close> values are idealised as real numbers (rounding is not modelled);
  \<^item> the fixed C++ array \<^verbatim>\<open>m_textureIDs\<close> is a list whose length is the declared
    bound; an access outside it, undefined behaviour in C++, is the error
    \<open>OutOfBounds\<close>; a call through a null \<^verbatim>\<open>m_pShaderManager\<close> is \<open>NullPointer\<close>;
  \<^item> OpenGL is a collaborator: the calls issued are appended to a trace, and the texture
    name \<^verbatim>\<open>glGenTextures\<close> hands out comes from the platform;
  \<^item> the lines written to \<^verbatim>\<open>std::cout\<close> and the freeing of the decoded pixel buffer
    are not modelled.
\<close>

subsection \<open>Vectors and matrices of glm\<close>

datatype vec2 = Vec2 real real

datatype vec3 = Vec3 real real real

datatype vec4 = Vec4 real real real real

text \<open>A \<^verbatim>\<open>glm::mat4\<close> is stored by columns.\<close>

datatype mat4 = Mat4 vec4 vec4 vec4 vec4

fun vec4_add :: "vec4 \<Rightarrow> vec4 \<Rightarrow> vec4" where
  "vec4_add (Vec4 a b c d) (Vec4 a' b' c' d') = Vec4 (a + a') (b + b') (c + c') (d + d')"

fun vec4_scale :: "vec4 \<Rightarrow> real \<Rightarrow> vec4" where
  "vec4_scale (Vec4 a b c d) k = Vec4 (a * k) (b * k) (c * k) (d * k)"

text \<open>\<^verbatim>\<open>m * v\<close>: the combination of the columns of \<open>m\<close> with the components of \<open>v\<close>.\<close>

fun mat4_vec :: "mat4 \<Rightarrow> vec4 \<Rightarrow> vec4" where
  "mat4_vec (Mat4 c0 c1 c2 c3) (Vec4 x y z w) =
     vec4_add (vec4_add (vec4_add (vec4_scale c0 x) (vec4_scale c1 y)) (vec4_scale c2 z))
       (vec4_scale c3 w)"

text \<open>\<^verbatim>\<open>a * b\<close> on matrices: each column of the product is \<open>a\<close> applied to that column of \<open>b\<close>.\<close>

fun mat4_mul :: "mat4 \<Rightarrow> mat4 \<Rightarrow> mat4" where
  "mat4_mul a (Mat4 b0 b1 b2 b3) =
     Mat4 (mat4_vec a b0) (mat4_vec a b1) (mat4_vec a b2) (mat4_vec a b3)"

definition mat4_identity :: mat4 where
  "mat4_identity = Mat4 (Vec4 1 0 0 0) (Vec4 0 1 0 0) (Vec4 0 0 1 0) (Vec4 0 0 0 1)"

text \<open>\<^verbatim>\<open>glm::radians\<close>.\<close>

definition radians :: "real \<Rightarrow> real" where
  "radians degrees = degrees * pi / 180"

text \<open>\<^verbatim>\<open>glm::scale(v)\<close>: the identity with its first three columns scaled.\<close>

fun glm_scale :: "vec3 \<Rightarrow> mat4" where
  "glm_scale (Vec3 x y z) =
     Mat4 (Vec4 x 0 0 0) (Vec4 0 y 0 0) (Vec4 0 0 z 0) (Vec4 0 0 0 1)"

text \<open>\<^verbatim>\<open>glm::translate(v)\<close>: the identity with \<open>v\<close> in its last column.\<close>

fun glm_translate :: "vec3 \<Rightarrow> mat4" where
  "glm_translate (Vec3 x y z) =
     Mat4 (Vec4 1 0 0 0) (Vec4 0 1 0 0) (Vec4 0 0 1 0) (Vec4 x y z 1)"

text \<open>\<^verbatim>\<open>glm::normalize\<close> on a 3-vector.\<close>

fun normalize :: "vec3 \<Rightarrow> vec3" where
  "normalize (Vec3 x y z) =
     (let n = sqrt (x * x + y * y + z * z) in Vec3 (x / n) (y / n) (z / n))"

text \<open>
  \<^verbatim>\<open>glm::rotate(angle, v)\<close>: the axis-angle rotation glm builds from the normalised axis,
  \<open>c = cos angle\<close>, \<open>s = sin angle\<close> and \<open>temp = (1 - c) * axis\<close>, applied to the identity.
\<close>

definition glm_rotate :: "real \<Rightarrow> vec3 \<Rightarrow> mat4" where
  "glm_rotate angle v =
     (case normalize v of Vec3 ax ay az \<Rightarrow>
        let c = cos angle; s = sin angle;
            tx = (1 - c) * ax; ty = (1 - c) * ay; tz = (1 - c) * az
        in Mat4 (Vec4 (c + tx * ax) (tx * ay + s * az) (tx * az - s * ay) 0)
                (Vec4 (ty * ax - s * az) (c + ty * ay) (ty * az + s * ax) 0)
                (Vec4 (tz * ax + s * ay) (tz * ay - s * ax) (c + tz * az) 0)
                (Vec4 0 0 0 1))"

subsection \<open>The shader manager\<close>

datatype uniform_value =
    UInt int
  | UBool bool
  | UFloat real
  | UVec2 vec2
  | UVec3 vec3
  | UVec4 vec4
  | UMat4 mat4
  | USampler2D int

text \<open>
  Modelled from the spec: the class \<^verbatim>\<open>ShaderManager\<close> is declared outside
  \<^verbatim>\<open>SceneManager.cpp\<close>. The spec describes it as an interface that sets matrix, vector, scalar, boolean and sampler
  uniforms by name, so a shader manager is the map from uniform names to the value last
  set, and every setter stores its value under the name.
\<close>

type_synonym ShaderManager = "string \<rightharpoonup> uniform_value"

definition setIntValue :: "string \<Rightarrow> int \<Rightarrow> ShaderManager \<Rightarrow> ShaderManager" where
  "setIntValue name v sh = sh(name \<mapsto> UInt v)"

definition setBoolValue :: "string \<Rightarrow> bool \<Rightarrow> ShaderManager \<Rightarrow> ShaderManager" where
  "setBoolValue name v sh = sh(name \<mapsto> UBool v)"

definition setFloatValue :: "string \<Rightarrow> real \<Rightarrow> ShaderManager \<Rightarrow> ShaderManager" where
  "setFloatValue name v sh = sh(name \<mapsto> UFloat v)"

definition setVec2Value :: "string \<Rightarrow> vec2 \<Rightarrow> ShaderManager \<Rightarrow> ShaderManager" where
  "setVec2Value name v sh = sh(name \<mapsto> UVec2 v)"

definition setVec3Value :: "string \<Rightarrow> vec3 \<Rightarrow> ShaderManager \<Rightarrow> ShaderManager" where
  "setVec3Value name v sh = sh(name \<mapsto> UVec3 v)"

definition setVec4Value :: "string \<Rightarrow> vec4 \<Rightarrow> ShaderManager \<Rightarrow> ShaderManager" where
  "setVec4Value name v sh = sh(name \<mapsto> UVec4 v)"

definition setMat4Value :: "string \<Rightarrow> mat4 \<Rightarrow> ShaderManager \<Rightarrow> ShaderManager" where
  "setMat4Value name v sh = sh(name \<mapsto> UMat4 v)"

definition setSampler2DValue :: "string \<Rightarrow> int \<Rightarrow> ShaderManager \<Rightarrow> ShaderManager" where
  "setSampler2DValue name v sh = sh(name \<mapsto> USampler2D v)"

text \<open>The names of the uniforms, as the anonymous namespace of the source declares them.\<close>

definition g_ModelName :: string where
  "g_ModelName = ''model''"

definition g_ColorValueName :: string where
  "g_ColorValueName = ''objectColor''"

definition g_TextureValueName :: string where
  "g_TextureValueName = ''objectTexture''"

definition g_UseTextureName :: string where
  "g_UseTextureName = ''bUseTexture''"

definition g_UseLightingName :: string where
  "g_UseLightingName = ''bUseLighting''"

subsection \<open>State of the scene manager\<close>

datatype error = OutOfBounds int | NullPointer

text \<open>
  The texture entry: the field \<open>ID\<close> is a \<^verbatim>\<open>GLuint\<close> (its address is passed to
  \<^verbatim>\<open>glGenTextures\<close>), so the \<open>-1\<close> the constructor stores wraps to \<open>0xFFFFFFFF\<close>.
\<close>

record TEXTURE_INFO =
  ID :: "32 word"
  tag :: string

record OBJECT_MATERIAL =
  ambientColor :: vec3
  ambientStrength :: real
  diffuseColor :: vec3
  specularColor :: vec3
  shininess :: real
  tag :: string

datatype gl_target_param =
  GL_TEXTURE_WRAP_S | GL_TEXTURE_WRAP_T | GL_TEXTURE_MIN_FILTER | GL_TEXTURE_MAG_FILTER

datatype gl_param_value = GL_REPEAT | GL_LINEAR

datatype gl_format = GL_RGB8 | GL_RGB | GL_RGBA8 | GL_RGBA

datatype gl_call =
    glGenTextures "32 word"
  | glBindTexture "32 word"
  | glTexParameteri gl_target_param gl_param_value
  | glTexImage2D gl_format int int gl_format
  | glGenerateMipmap
  | glActiveTexture int

datatype mesh =
  PlaneMesh | PrismMesh | BoxMesh | CylinderMesh | ConeMesh | TorusMesh | BoxMesh2

text \<open>
  The mesh library \<^verbatim>\<open>ShapeMeshes\<close> is a collaborator: the model keeps which meshes were
  loaded and, for every draw call, the mesh drawn with the uniforms in force at the call.
\<close>

record ShapeMeshes =
  loaded :: "mesh list"
  drawn :: "(mesh \<times> ShaderManager option) list"

record SceneManager =
  m_pShaderManager :: "ShaderManager option"
  m_basicMeshes :: ShapeMeshes
  m_textureIDs :: "TEXTURE_INFO list"
  m_loadedTextures :: int
  m_objectMaterials :: "OBJECT_MATERIAL list"
  gl_calls :: "gl_call list"

text \<open>What \<^verbatim>\<open>stbi_load\<close> reports of a decoded image.\<close>

record image =
  width :: int
  height :: int
  colorChannels :: int

text \<open>
  The platform: the image decoder (\<open>None\<close> is the null pointer of a failed decode), the
  texture name the driver returns after a given history of calls, and the indeterminate
  contents of uninitialised locals.
\<close>

record platform =
  stbi_load :: "string \<Rightarrow> image option"
  gen_texture_name :: "gl_call list \<Rightarrow> 32 word"
  uninit_material :: OBJECT_MATERIAL
  uninit_vec3 :: vec3

definition array_read :: "'a list \<Rightarrow> int \<Rightarrow> error + 'a" where
  "array_read xs i =
     (if 0 \<le> i \<and> i < int (length xs) then Inr (xs ! nat i) else Inl (OutOfBounds i))"

definition array_write :: "'a list \<Rightarrow> int \<Rightarrow> ('a \<Rightarrow> 'a) \<Rightarrow> error + 'a list" where
  "array_write xs i f =
     (if 0 \<le> i \<and> i < int (length xs) then Inr (xs[nat i := f (xs ! nat i)])
      else Inl (OutOfBounds i))"

subsection \<open>Constructor\<close>

text \<open>
  \<^verbatim>\<open>SceneManager::SceneManager\<close>: sixteen entries \<open>("/0", -1)\<close>, no texture loaded, a fresh
  mesh library and an empty material vector. The OpenGL trace at construction is a
  parameter.
\<close>

definition SceneManager_new :: "ShaderManager option \<Rightarrow> gl_call list \<Rightarrow> SceneManager" where
  "SceneManager_new pShaderManager gl =
     \<lparr>m_pShaderManager = pShaderManager,
      m_basicMeshes = \<lparr>loaded = [], drawn = []\<rparr>,
      m_textureIDs = replicate 16 \<lparr>ID = - 1, TEXTURE_INFO.tag = ''/0''\<rparr>,
      m_loadedTextures = 0,
      m_objectMaterials = [],
      gl_calls = gl\<rparr>"

subsection \<open>Texture registry\<close>

text \<open>
  \<^verbatim>\<open>CreateGLTexture\<close>. The result is the boolean returned and the state after the call, or
  the error of the write \<^verbatim>\<open>m_textureIDs[m_loadedTextures]\<close> outside the array.
\<close>

definition CreateGLTexture ::
  "platform \<Rightarrow> string \<Rightarrow> string \<Rightarrow> SceneManager \<Rightarrow> error + bool \<times> SceneManager" where
  "CreateGLTexture p filename tag' s =
     (case stbi_load p filename of
        Some img \<Rightarrow>
          (let textureID = gen_texture_name p (gl_calls s);
               s1 = s\<lparr>gl_calls := gl_calls s @
                      [glGenTextures textureID, glBindTexture textureID,
                       glTexParameteri GL_TEXTURE_WRAP_S GL_REPEAT,
                       glTexParameteri GL_TEXTURE_WRAP_T GL_REPEAT,
                       glTexParameteri GL_TEXTURE_MIN_FILTER GL_LINEAR,
                       glTexParameteri GL_TEXTURE_MAG_FILTER GL_LINEAR]\<rparr>
           in case (if colorChannels img = 3
                    then Some (glTexImage2D GL_RGB8 (width img) (height img) GL_RGB)
                    else if colorChannels img = 4
                    then Some (glTexImage2D GL_RGBA8 (width img) (height img) GL_RGBA)
                    else None) of
                None \<Rightarrow> Inr (False, s1)
              | Some upload \<Rightarrow>
                  (let s2 = s1\<lparr>gl_calls := gl_calls s1 @
                              [upload, glGenerateMipmap, glBindTexture 0]\<rparr>
                   in case array_write (m_textureIDs s2) (m_loadedTextures s2)
                             (\<lambda>t. t\<lparr>ID := textureID\<rparr>) of
                        Inl e \<Rightarrow> Inl e
                      | Inr ids1 \<Rightarrow>
                          (case array_write ids1 (m_loadedTextures s2)
                                  (\<lambda>t. t\<lparr>TEXTURE_INFO.tag := tag'\<rparr>) of
                             Inl e \<Rightarrow> Inl e
                           | Inr ids2 \<Rightarrow>
                               Inr (True, s2\<lparr>m_textureIDs := ids2,
                                             m_loadedTextures := m_loadedTextures s2 + 1\<rparr>))))
      | None \<Rightarrow> Inr (False, s))"

text \<open>
  \<^verbatim>\<open>BindGLTextures\<close>: the loop over \<open>i = 0 .. m_loadedTextures - 1\<close>, started at \<open>i = 0\<close>.
\<close>

function BindGLTextures_loop :: "int \<Rightarrow> SceneManager \<Rightarrow> error + SceneManager" where
  "BindGLTextures_loop i s =
     (if i < m_loadedTextures s then
        (case array_read (m_textureIDs s) i of
           Inl e \<Rightarrow> Inl e
         | Inr t \<Rightarrow>
             BindGLTextures_loop (i + 1)
               (s\<lparr>gl_calls := gl_calls s @ [glActiveTexture i, glBindTexture (ID t)]\<rparr>))
      else Inr s)"
  by pat_completeness auto
termination
  by (relation "measure (\<lambda>(i, s). nat (m_loadedTextures s - i))") auto

definition BindGLTextures :: "SceneManager \<Rightarrow> error + SceneManager" where
  "BindGLTextures s = BindGLTextures_loop 0 s"

text \<open>
  \<^verbatim>\<open>FindTextureID\<close>: the \<^verbatim>\<open>while\<close> loop over \<open>textureID\<close>, \<open>index\<close> and \<open>bFound\<close>. The
  \<^verbatim>\<open>GLuint\<close> found is returned as an \<^verbatim>\<open>int\<close>.
\<close>

function FindTextureID_loop ::
  "SceneManager \<Rightarrow> string \<Rightarrow> int \<Rightarrow> int \<Rightarrow> bool \<Rightarrow> error + int" where
  "FindTextureID_loop s tag' textureID index bFound =
     (if index < m_loadedTextures s \<and> bFound = False then
        (case array_read (m_textureIDs s) index of
           Inl e \<Rightarrow> Inl e
         | Inr t \<Rightarrow>
             if TEXTURE_INFO.tag t = tag'
             then FindTextureID_loop s tag' (sint (ID t)) index True
             else FindTextureID_loop s tag' textureID (index + 1) bFound)
      else Inr textureID)"
  by pat_completeness auto
termination
  by (relation "measure (\<lambda>(s, tag', textureID, index, bFound).
        if bFound then 0 else Suc (nat (m_loadedTextures s - index)))") auto

definition FindTextureID :: "string \<Rightarrow> SceneManager \<Rightarrow> error + int" where
  "FindTextureID tag' s = FindTextureID_loop s tag' (- 1) 0 False"

text \<open>\<^verbatim>\<open>FindTextureSlot\<close>: the same loop, keeping the index instead of the name.\<close>

function FindTextureSlot_loop ::
  "SceneManager \<Rightarrow> string \<Rightarrow> int \<Rightarrow> int \<Rightarrow> bool \<Rightarrow> error + int" where
  "FindTextureSlot_loop s tag' textureSlot index bFound =
     (if index < m_loadedTextures s \<and> bFound = False then
        (case array_read (m_textureIDs s) index of
           Inl e \<Rightarrow> Inl e
         | Inr t \<Rightarrow>
             if TEXTURE_INFO.tag t = tag'
             then FindTextureSlot_loop s tag' index index True
             else FindTextureSlot_loop s tag' textureSlot (index + 1) bFound)
      else Inr textureSlot)"
  by pat_completeness auto
termination
  by (relation "measure (\<lambda>(s, tag', textureSlot, index, bFound).
        if bFound then 0 else Suc (nat (m_loadedTextures s - index)))") auto

definition FindTextureSlot :: "string \<Rightarrow> SceneManager \<Rightarrow> error + int" where
  "FindTextureSlot tag' s = FindTextureSlot_loop s tag' (- 1) 0 False"

subsection \<open>Material table\<close>

text \<open>
  \<^verbatim>\<open>FindMaterial\<close>: the loop over \<open>index\<close> and \<open>bFound\<close>, writing three fields of the caller's
  \<open>material\<close> at a match. The result is the boolean returned and the caller's material after
  the call.
\<close>

function FindMaterial_loop ::
  "OBJECT_MATERIAL list \<Rightarrow> string \<Rightarrow> nat \<Rightarrow> bool \<Rightarrow> OBJECT_MATERIAL \<Rightarrow> OBJECT_MATERIAL" where
  "FindMaterial_loop mats tag' index bFound material =
     (if index < length mats \<and> bFound = False then
        (if OBJECT_MATERIAL.tag (mats ! index) = tag'
         then FindMaterial_loop mats tag' index True
                (material\<lparr>diffuseColor := diffuseColor (mats ! index),
                          specularColor := specularColor (mats ! index),
                          shininess := shininess (mats ! index)\<rparr>)
         else FindMaterial_loop mats tag' (index + 1) bFound material)
      else material)"
  by pat_completeness auto
termination
  by (relation "measure (\<lambda>(mats, tag', index, bFound, material).
        if bFound then 0 else Suc (length mats - index))") auto

definition FindMaterial ::
  "string \<Rightarrow> OBJECT_MATERIAL \<Rightarrow> SceneManager \<Rightarrow> bool \<times> OBJECT_MATERIAL" where
  "FindMaterial tag' material s =
     (if length (m_objectMaterials s) = 0 then (False, material)
      else (True, FindMaterial_loop (m_objectMaterials s) tag' 0 False material))"

subsection \<open>Transform composer and shader settings\<close>

definition SetTransformations ::
  "vec3 \<Rightarrow> real \<Rightarrow> real \<Rightarrow> real \<Rightarrow> vec3 \<Rightarrow> SceneManager \<Rightarrow> SceneManager" where
  "SetTransformations scaleXYZ XrotationDegrees YrotationDegrees ZrotationDegrees positionXYZ s =
     (let scale = glm_scale scaleXYZ;
          rotationX = glm_rotate (radians XrotationDegrees) (Vec3 1 0 0);
          rotationY = glm_rotate (radians YrotationDegrees) (Vec3 0 1 0);
          rotationZ = glm_rotate (radians ZrotationDegrees) (Vec3 0 0 1);
          translation = glm_translate positionXYZ;
          modelView =
            mat4_mul (mat4_mul (mat4_mul (mat4_mul translation rotationZ) rotationY) rotationX)
              scale
      in case m_pShaderManager s of
           Some sh \<Rightarrow> s\<lparr>m_pShaderManager := Some (setMat4Value g_ModelName modelView sh)\<rparr>
         | None \<Rightarrow> s)"

definition SetShaderColor ::
  "real \<Rightarrow> real \<Rightarrow> real \<Rightarrow> real \<Rightarrow> SceneManager \<Rightarrow> SceneManager" where
  "SetShaderColor redColorValue greenColorValue blueColorValue alphaValue s =
     (let currentColor = Vec4 redColorValue greenColorValue blueColorValue alphaValue
      in case m_pShaderManager s of
           Some sh \<Rightarrow>
             s\<lparr>m_pShaderManager :=
                 Some (setVec4Value g_ColorValueName currentColor
                         (setIntValue g_UseTextureName (of_bool False) sh))\<rparr>
         | None \<Rightarrow> s)"

definition SetShaderTexture :: "string \<Rightarrow> SceneManager \<Rightarrow> error + SceneManager" where
  "SetShaderTexture textureTag s =
     (case m_pShaderManager s of
        Some sh \<Rightarrow>
          (let sh1 = setIntValue g_UseTextureName (of_bool True) sh
           in case FindTextureSlot textureTag s of
                Inl e \<Rightarrow> Inl e
              | Inr textureID \<Rightarrow>
                  Inr (s\<lparr>m_pShaderManager :=
                           Some (setSampler2DValue g_TextureValueName textureID sh1)\<rparr>))
      | None \<Rightarrow> Inr s)"

definition SetTextureUVScale :: "real \<Rightarrow> real \<Rightarrow> SceneManager \<Rightarrow> SceneManager" where
  "SetTextureUVScale u v s =
     (case m_pShaderManager s of
        Some sh \<Rightarrow> s\<lparr>m_pShaderManager := Some (setVec2Value ''UVscale'' (Vec2 u v) sh)\<rparr>
      | None \<Rightarrow> s)"

text \<open>
  \<^verbatim>\<open>SetShaderMaterial\<close>: the local \<open>material\<close> is declared without an initialiser, and the
  shader manager is used without the null check the other setters make.
\<close>

definition SetShaderMaterial ::
  "platform \<Rightarrow> string \<Rightarrow> SceneManager \<Rightarrow> error + SceneManager" where
  "SetShaderMaterial p materialTag s =
     (if length (m_objectMaterials s) > 0 then
        (case FindMaterial materialTag (uninit_material p) s of
           (bReturn, material) \<Rightarrow>
             if bReturn = True then
               (case m_pShaderManager s of
                  None \<Rightarrow> Inl NullPointer
                | Some sh \<Rightarrow>
                    Inr (s\<lparr>m_pShaderManager :=
                             Some (setFloatValue ''material.shininess'' (shininess material)
                                    (setVec3Value ''material.specularColor''
                                       (specularColor material)
                                       (setVec3Value ''material.diffuseColor''
                                          (diffuseColor material) sh)))\<rparr>))
             else Inr s)
      else Inr s)"

text \<open>A draw call of the mesh library, with the uniforms in force.\<close>

definition DrawMesh :: "mesh \<Rightarrow> SceneManager \<Rightarrow> SceneManager" where
  "DrawMesh m s =
     s\<lparr>m_basicMeshes :=
         (m_basicMeshes s)\<lparr>drawn := drawn (m_basicMeshes s) @ [(m, m_pShaderManager s)]\<rparr>\<rparr>"

subsection \<open>Scene preparation\<close>

text \<open>Sequencing of calls that may fail: the first error ends the sequence.\<close>

definition bind_err :: "error + 'a \<Rightarrow> ('a \<Rightarrow> error + 'b) \<Rightarrow> error + 'b" where
  "bind_err m f = (case m of Inl e \<Rightarrow> Inl e | Inr x \<Rightarrow> f x)"

text \<open>The materials \<^verbatim>\<open>DefineObjectMaterials\<close> builds, in the order it appends them.\<close>

definition carbonMaterial :: OBJECT_MATERIAL where
  "carbonMaterial =
     \<lparr>ambientColor = Vec3 0.01 0.01 0.01, ambientStrength = 0.4,
      diffuseColor = Vec3 0.05 0.05 0.05, specularColor = Vec3 0.2 0.2 0.2,
      shininess = 5, OBJECT_MATERIAL.tag = ''carbon''\<rparr>"

definition plasticMaterial :: OBJECT_MATERIAL where
  "plasticMaterial =
     \<lparr>ambientColor = Vec3 0.1 0.1 0.1, ambientStrength = 0.3,
      diffuseColor = Vec3 0.1 0.1 0.1, specularColor = Vec3 0.1 0.1 0.1,
      shininess = 25, OBJECT_MATERIAL.tag = ''plastic''\<rparr>"

definition fabricMaterial :: OBJECT_MATERIAL where
  "fabricMaterial =
     \<lparr>ambientColor = Vec3 0.01 0.01 0.01, ambientStrength = 0.1,
      diffuseColor = Vec3 0.05 0.05 0.05, specularColor = Vec3 0.01 0.01 0.01,
      shininess = 5, OBJECT_MATERIAL.tag = ''fabric''\<rparr>"

definition noteMaterial :: OBJECT_MATERIAL where
  "noteMaterial =
     \<lparr>ambientColor = Vec3 0.01 0.01 0.2, ambientStrength = 0.4,
      diffuseColor = Vec3 0.4 0.4 0.4, specularColor = Vec3 0.5 0.5 0.5,
      shininess = 100, OBJECT_MATERIAL.tag = ''note''\<rparr>"

definition woodMaterial :: OBJECT_MATERIAL where
  "woodMaterial =
     \<lparr>ambientColor = Vec3 0.1 0.1 0.05, ambientStrength = 0.1,
      diffuseColor = Vec3 0.2 0.2 0.15, specularColor = Vec3 0.1 0.1 0.05,
      shininess = 50, OBJECT_MATERIAL.tag = ''wood''\<rparr>"

definition pencilMaterial :: OBJECT_MATERIAL where
  "pencilMaterial =
     \<lparr>ambientColor = Vec3 0.3 0.3 0, ambientStrength = 0.4,
      diffuseColor = Vec3 0.7 0.7 0, specularColor = Vec3 0.9 0.9 0,
      shininess = 10, OBJECT_MATERIAL.tag = ''pencil''\<rparr>"

definition metalMaterial :: OBJECT_MATERIAL where
  "metalMaterial =
     \<lparr>ambientColor = Vec3 0.5 0.5 0.5, ambientStrength = 0.4,
      diffuseColor = Vec3 0.8 0.8 0.8, specularColor = Vec3 0.9 0.9 0.9,
      shininess = 100, OBJECT_MATERIAL.tag = ''metal''\<rparr>"

definition rubberMaterial :: OBJECT_MATERIAL where
  "rubberMaterial =
     \<lparr>ambientColor = Vec3 0.5 0.37 0.4, ambientStrength = 0.9,
      diffuseColor = Vec3 0.5 0.37 0.4, specularColor = Vec3 0.01 0.007 0.008,
      shininess = 10, OBJECT_MATERIAL.tag = ''rubber''\<rparr>"

definition DefineObjectMaterials :: "SceneManager \<Rightarrow> SceneManager" where
  "DefineObjectMaterials s =
     s\<lparr>m_objectMaterials := m_objectMaterials s @
         [carbonMaterial, plasticMaterial, fabricMaterial, noteMaterial,
          woodMaterial, pencilMaterial, metalMaterial, rubberMaterial]\<rparr>"

text \<open>
  \<^verbatim>\<open>LoadSceneTextures\<close>: nine loads whose boolean result is stored and never read, then
  \<^verbatim>\<open>BindGLTextures\<close>.
\<close>

definition LoadSceneTextures :: "platform \<Rightarrow> SceneManager \<Rightarrow> error + SceneManager" where
  "LoadSceneTextures p s =
     (bind_err (CreateGLTexture p ''textures/desktop.jpg'' ''desk'' s) (\<lambda>(bReturn, s).
      bind_err (CreateGLTexture p ''textures/keyboard.jpg'' ''keyboard'' s) (\<lambda>(bReturn, s).
      bind_err (CreateGLTexture p ''textures/rest.jpg'' ''rest'' s) (\<lambda>(bReturn, s).
      bind_err (CreateGLTexture p ''textures/notebook.jpg'' ''notebook'' s) (\<lambda>(bReturn, s).
      bind_err (CreateGLTexture p ''textures/metal.jpg'' ''metal'' s) (\<lambda>(bReturn, s).
      bind_err (CreateGLTexture p ''textures/wood.jpg'' ''wood'' s) (\<lambda>(bReturn, s).
      bind_err (CreateGLTexture p ''textures/pencil.jpg'' ''pencil'' s) (\<lambda>(bReturn, s).
      bind_err (CreateGLTexture p ''textures/metal1.jpg'' ''metal1'' s) (\<lambda>(bReturn, s).
      bind_err (CreateGLTexture p ''textures/eraser.jpg'' ''eraser'' s) (\<lambda>(bReturn, s).
      BindGLTextures s))))))))))"

subsection \<open>Scene script\<close>

text \<open>
  \<^verbatim>\<open>RenderScene\<close> is a straight line of assignments to its five locals and of calls. The
  locals are a record, a statement is a function on the locals and the scene manager, and
  the body is the list of its statements in source order.
\<close>

record locals =
  scaleXYZ :: vec3
  XrotationDegrees :: real
  YrotationDegrees :: real
  ZrotationDegrees :: real
  positionXYZ :: vec3

type_synonym stmt = "locals \<times> SceneManager \<Rightarrow> error + locals \<times> SceneManager"

definition assign_scaleXYZ :: "vec3 \<Rightarrow> stmt" where
  "assign_scaleXYZ v = (\<lambda>(l, s). Inr (l\<lparr>scaleXYZ := v\<rparr>, s))"

definition assign_XrotationDegrees :: "real \<Rightarrow> stmt" where
  "assign_XrotationDegrees v = (\<lambda>(l, s). Inr (l\<lparr>XrotationDegrees := v\<rparr>, s))"

definition assign_YrotationDegrees :: "real \<Rightarrow> stmt" where
  "assign_YrotationDegrees v = (\<lambda>(l, s). Inr (l\<lparr>YrotationDegrees := v\<rparr>, s))"

definition assign_ZrotationDegrees :: "real \<Rightarrow> stmt" where
  "assign_ZrotationDegrees v = (\<lambda>(l, s). Inr (l\<lparr>ZrotationDegrees := v\<rparr>, s))"

definition assign_positionXYZ :: "vec3 \<Rightarrow> stmt" where
  "assign_positionXYZ v = (\<lambda>(l, s). Inr (l\<lparr>positionXYZ := v\<rparr>, s))"

definition call_SetTransformations :: stmt where
  "call_SetTransformations =
     (\<lambda>(l, s). Inr (l, SetTransformations (scaleXYZ l) (XrotationDegrees l)
                          (YrotationDegrees l) (ZrotationDegrees l) (positionXYZ l) s))"

definition call_SetShaderColor :: "real \<Rightarrow> real \<Rightarrow> real \<Rightarrow> real \<Rightarrow> stmt" where
  "call_SetShaderColor r g b a = (\<lambda>(l, s). Inr (l, SetShaderColor r g b a s))"

definition call_SetShaderMaterial :: "platform \<Rightarrow> string \<Rightarrow> stmt" where
  "call_SetShaderMaterial p materialTag =
     (\<lambda>(l, s). bind_err (SetShaderMaterial p materialTag s) (\<lambda>s'. Inr (l, s')))"

definition call_SetShaderTexture :: "string \<Rightarrow> stmt" where
  "call_SetShaderTexture textureTag =
     (\<lambda>(l, s). bind_err (SetShaderTexture textureTag s) (\<lambda>s'. Inr (l, s')))"

definition call_DrawMesh :: "mesh \<Rightarrow> stmt" where
  "call_DrawMesh m = (\<lambda>(l, s). Inr (l, DrawMesh m s))"

fun run_stmts :: "stmt list \<Rightarrow> locals \<times> SceneManager \<Rightarrow> error + locals \<times> SceneManager" where
  "run_stmts [] st = Inr st"
| "run_stmts (c # cs) st = bind_err (c st) (run_stmts cs)"

definition RenderScene_body :: "platform \<Rightarrow> stmt list" where
  "RenderScene_body p =
     [assign_scaleXYZ (Vec3 15 1 5),
      assign_positionXYZ (Vec3 0 0 4),
      call_SetTransformations,
      call_SetShaderMaterial p ''carbon'',
      call_SetShaderTexture ''desk'',
      call_DrawMesh PlaneMesh,
      assign_scaleXYZ (Vec3 10 0.2 4),
      assign_XrotationDegrees 1.8,
      assign_YrotationDegrees 0,
      assign_ZrotationDegrees 0,
      assign_positionXYZ (Vec3 0 0.05 4),
      call_SetTransformations,
      call_SetShaderTexture ''keyboard'',
      call_SetShaderMaterial p ''plastic'',
      call_DrawMesh BoxMesh,
      assign_scaleXYZ (Vec3 1 0.05 1),
      assign_XrotationDegrees 0,
      assign_YrotationDegrees 0,
      assign_ZrotationDegrees 0,
      assign_positionXYZ (Vec3 7 0 4),
      call_SetTransformations,
      call_SetShaderTexture ''rest'',
      call_SetShaderMaterial p ''fabric'',
      call_DrawMesh CylinderMesh,
      assign_scaleXYZ (Vec3 9.5 0.05 1.5),
      assign_positionXYZ (Vec3 0 0.05 7),
      call_SetTransformations,
      call_DrawMesh BoxMesh,
      assign_scaleXYZ (Vec3 9.4 0.15 1.4),
      assign_positionXYZ (Vec3 0 0.1 7),
      call_SetTransformations,
      call_DrawMesh BoxMesh,
      assign_scaleXYZ (Vec3 4.8 0.1 6),
      assign_positionXYZ (Vec3 (- 9) 0.05 4.5),
      call_SetTransformations,
      call_SetShaderTexture ''notebook'',
      call_SetShaderMaterial p ''note'',
      call_DrawMesh BoxMesh2,
      assign_scaleXYZ (Vec3 0.1 0.1 0.05),
      assign_positionXYZ (Vec3 (- 11.4) 0.05 4),
      call_SetTransformations,
      call_SetShaderTexture ''metal'',
      call_SetShaderMaterial p ''metal'',
      call_DrawMesh TorusMesh,
      assign_positionXYZ (Vec3 (- 11.4) 0.05 4.2),
      call_SetTransformations,
      call_DrawMesh TorusMesh,
      assign_positionXYZ (Vec3 (- 11.4) 0.05 4.4),
      call_SetTransformations,
      call_DrawMesh TorusMesh,
      assign_positionXYZ (Vec3 (- 11.4) 0.05 4.6),
      call_SetTransformations,
      call_DrawMesh TorusMesh,
      assign_positionXYZ (Vec3 (- 11.4) 0.05 4.8),
      call_SetTransformations,
      call_DrawMesh TorusMesh,
      assign_positionXYZ (Vec3 (- 11.4) 0.05 5),
      call_SetTransformations,
      call_DrawMesh TorusMesh,
      assign_positionXYZ (Vec3 (- 11.4) 0.05 5.2),
      call_SetTransformations,
      call_DrawMesh TorusMesh,
      assign_positionXYZ (Vec3 (- 11.4) 0.05 5.4),
      call_SetTransformations,
      call_DrawMesh TorusMesh,
      assign_positionXYZ (Vec3 (- 11.4) 0.05 5.6),
      call_SetTransformations,
      call_DrawMesh TorusMesh,
      assign_positionXYZ (Vec3 (- 11.4) 0.05 5.8),
      call_SetTransformations,
      call_DrawMesh TorusMesh,
      assign_positionXYZ (Vec3 (- 11.4) 0.05 6),
      call_SetTransformations,
      call_DrawMesh TorusMesh,
      assign_positionXYZ (Vec3 (- 11.4) 0.05 6.2),
      call_SetTransformations,
      call_DrawMesh TorusMesh,
      assign_positionXYZ (Vec3 (- 11.4) 0.05 6.4),
      call_SetTransformations,
      call_DrawMesh TorusMesh,
      assign_positionXYZ (Vec3 (- 11.4) 0.05 6.6),
      call_SetTransformations,
      call_DrawMesh TorusMesh,
      assign_positionXYZ (Vec3 (- 11.4) 0.05 6.8),
      call_SetTransformations,
      call_DrawMesh TorusMesh,
      assign_positionXYZ (Vec3 (- 11.4) 0.05 7),
      call_SetTransformations,
      call_DrawMesh TorusMesh,
      assign_positionXYZ (Vec3 (- 11.4) 0.05 7.2),
      call_SetTransformations,
      call_DrawMesh TorusMesh,
      assign_positionXYZ (Vec3 (- 11.4) 0.05 7.4),
      call_SetTransformations,
      call_DrawMesh TorusMesh,
      assign_positionXYZ (Vec3 (- 11.4) 0.05 3.8),
      call_SetTransformations,
      call_DrawMesh TorusMesh,
      assign_positionXYZ (Vec3 (- 11.4) 0.05 3.6),
      call_SetTransformations,
      call_DrawMesh TorusMesh,
      assign_positionXYZ (Vec3 (- 11.4) 0.05 3.4),
      call_SetTransformations,
      call_DrawMesh TorusMesh,
      assign_positionXYZ (Vec3 (- 11.4) 0.05 3.2),
      call_SetTransformations,
      call_DrawMesh TorusMesh,
      assign_positionXYZ (Vec3 (- 11.4) 0.05 3),
      call_SetTransformations,
      call_DrawMesh TorusMesh,
      assign_positionXYZ (Vec3 (- 11.4) 0.05 2.8),
      call_SetTransformations,
      call_DrawMesh TorusMesh,
      assign_positionXYZ (Vec3 (- 11.4) 0.05 2.6),
      call_SetTransformations,
      call_DrawMesh TorusMesh,
      assign_positionXYZ (Vec3 (- 11.4) 0.05 2.4),
      call_SetTransformations,
      call_DrawMesh TorusMesh,
      assign_positionXYZ (Vec3 (- 11.4) 0.05 2.2),
      call_SetTransformations,
      call_DrawMesh TorusMesh,
      assign_positionXYZ (Vec3 (- 11.4) 0.05 2),
      call_SetTransformations,
      call_DrawMesh TorusMesh,
      assign_positionXYZ (Vec3 (- 11.4) 0.05 1.8),
      call_SetTransformations,
      call_DrawMesh TorusMesh,
      assign_positionXYZ (Vec3 (- 11.4) 0.05 1.6),
      call_SetTransformations,
      call_DrawMesh TorusMesh,
      assign_scaleXYZ (Vec3 0.1 0.3 0.1),
      assign_XrotationDegrees (- 90),
      assign_YrotationDegrees 45,
      assign_ZrotationDegrees 0,
      assign_positionXYZ (Vec3 (- 9.8) 0.2 2.2),
      call_SetTransformations,
      call_SetShaderMaterial p ''wood'',
      call_SetShaderTexture ''wood'',
      call_DrawMesh ConeMesh,
      assign_positionXYZ (Vec3 (- 10.3) 0.2 2.7),
      call_SetTransformations,
      call_DrawMesh ConeMesh,
      assign_scaleXYZ (Vec3 0.1 3.253 0.1),
      assign_positionXYZ (Vec3 (- 7.5) 0.2 4.5),
      call_SetTransformations,
      call_SetShaderColor 0.2 0.2 0.2 1,
      call_SetShaderMaterial p ''pencil'',
      call_SetShaderTexture ''pencil'',
      call_DrawMesh CylinderMesh,
      assign_positionXYZ (Vec3 (- 8) 0.2 5),
      call_SetTransformations,
      call_DrawMesh CylinderMesh,
      assign_scaleXYZ (Vec3 0.105 0.3 0.105),
      assign_positionXYZ (Vec3 (- 7.3) 0.2 4.7),
      call_SetTransformations,
      call_SetShaderColor 0.2 0.2 0.2 1,
      call_SetShaderMaterial p ''metal'',
      call_SetShaderTexture ''metal1'',
      call_DrawMesh CylinderMesh,
      assign_positionXYZ (Vec3 (- 7.8) 0.2 5.2),
      call_SetTransformations,
      call_DrawMesh CylinderMesh,
      assign_scaleXYZ (Vec3 0.1 0.2 0.1),
      assign_positionXYZ (Vec3 (- 7.2) 0.2 4.8),
      call_SetTransformations,
      call_SetShaderMaterial p ''rubber'',
      call_SetShaderTexture ''eraser'',
      call_DrawMesh CylinderMesh,
      assign_positionXYZ (Vec3 (- 7.7) 0.2 5.3),
      call_SetTransformations,
      call_DrawMesh CylinderMesh]"

text \<open>
  The locals at entry: the two vectors are declared without an initialiser, the three angles
  start at \<open>0\<close>.
\<close>

definition RenderScene :: "platform \<Rightarrow> SceneManager \<Rightarrow> error + SceneManager" where
  "RenderScene p s =
     bind_err
       (run_stmts (RenderScene_body p)
          (\<lparr>scaleXYZ = uninit_vec3 p, XrotationDegrees = 0, YrotationDegrees = 0,
            ZrotationDegrees = 0, positionXYZ = uninit_vec3 p\<rparr>, s))
       (\<lambda>(l, s'). Inr s')"

subsection \<open>Sequences of texture loads\<close>

text \<open>
  A sequence of \<^verbatim>\<open>CreateGLTexture\<close> calls, one after the other as \<^verbatim>\<open>LoadSceneTextures\<close>
  makes them, each with its file name and tag. The result collects the booleans returned.
\<close>

fun load_textures ::
  "platform \<Rightarrow> (string \<times> string) list \<Rightarrow> SceneManager \<Rightarrow> error + bool list \<times> SceneManager" where
  "load_textures p [] s = Inr ([], s)"
| "load_textures p ((filename, tag') # calls) s =
     bind_err (CreateGLTexture p filename tag' s) (\<lambda>(bReturn, s').
     bind_err (load_textures p calls s') (\<lambda>(rs, s''). Inr (bReturn # rs, s'')))"

text \<open>The tags in force: those of the entries below the loaded-texture count.\<close>

definition registered_tags :: "SceneManager \<Rightarrow> string list" where
  "registered_tags s = map TEXTURE_INFO.tag (take (nat (m_loadedTextures s)) (m_textureIDs s))"

subsection \<open>The elementary transforms of the specification\<close>

text \<open>
  The matrices the specification composes, in their textbook form and stored by columns:
  the scaling by a vector, the rotations by an angle in degrees about the X, Y and Z axes,
  and the translation by a vector.
\<close>

fun scale_matrix :: "vec3 \<Rightarrow> mat4" where
  "scale_matrix (Vec3 sx sy sz) =
     Mat4 (Vec4 sx 0 0 0) (Vec4 0 sy 0 0) (Vec4 0 0 sz 0) (Vec4 0 0 0 1)"

definition rotateX_matrix :: "real \<Rightarrow> mat4" where
  "rotateX_matrix deg =
     Mat4 (Vec4 1 0 0 0)
          (Vec4 0 (cos (radians deg)) (sin (radians deg)) 0)
          (Vec4 0 (- sin (radians deg)) (cos (radians deg)) 0)
          (Vec4 0 0 0 1)"

definition rotateY_matrix :: "real \<Rightarrow> mat4" where
  "rotateY_matrix deg =
     Mat4 (Vec4 (cos (radians deg)) 0 (- sin (radians deg)) 0)
          (Vec4 0 1 0 0)
          (Vec4 (sin (radians deg)) 0 (cos (radians deg)) 0)
          (Vec4 0 0 0 1)"

definition rotateZ_matrix :: "real \<Rightarrow> mat4" where
  "rotateZ_matrix deg =
     Mat4 (Vec4 (cos (radians deg)) (sin (radians deg)) 0 0)
          (Vec4 (- sin (radians deg)) (cos (radians deg)) 0 0)
          (Vec4 0 0 1 0)
          (Vec4 0 0 0 1)"

fun translation_matrix :: "vec3 \<Rightarrow> mat4" where
  "translation_matrix (Vec3 tx ty tz) =
     Mat4 (Vec4 1 0 0 0) (Vec4 0 1 0 0) (Vec4 0 0 1 0) (Vec4 tx ty tz 1)"

subsection \<open>Properties of statements\<close>

text \<open>
  A state on which the lookups cannot leave the array and the shader manager is present.
\<close>

definition scene_ok :: "SceneManager \<Rightarrow> bool" where
  "scene_ok s =
     (\<not> Option.is_none (m_pShaderManager s) \<and>
      m_loadedTextures s \<le> int (length (m_textureIDs s)))"

text \<open>The part of the state the registry and the material table make up.\<close>

definition collections ::
  "SceneManager \<Rightarrow> TEXTURE_INFO list \<times> int \<times> OBJECT_MATERIAL list" where
  "collections s = (m_textureIDs s, m_loadedTextures s, m_objectMaterials s)"

definition keeps_collections :: "stmt \<Rightarrow> bool" where
  "keeps_collections c =
     (\<forall>l s l' s'. c (l, s) = Inr (l', s') \<longrightarrow> collections s' = collections s)"

definition runs_ok :: "stmt \<Rightarrow> bool" where
  "runs_ok c =
     (\<forall>l s. scene_ok s \<longrightarrow> (\<exists>l' s'. c (l, s) = Inr (l', s') \<and> scene_ok s'))"

subsection \<open>A concrete platform and concrete scenes\<close>

text \<open>
  A platform on which \<^verbatim>\<open>textures/gray.png\<close> decodes with one channel,
  \<^verbatim>\<open>textures/absent.jpg\<close> does not decode, \<^verbatim>\<open>textures/alpha.png\<close> decodes with four
  channels and every other file with three; the driver numbers its textures by the length of
  the trace.
\<close>

definition desk_platform :: platform where
  "desk_platform =
     \<lparr>stbi_load = (\<lambda>f.
        if f = ''textures/gray.png'' then Some \<lparr>width = 4, height = 4, colorChannels = 1\<rparr>
        else if f = ''textures/absent.jpg'' then None
        else if f = ''textures/alpha.png'' then Some \<lparr>width = 8, height = 8, colorChannels = 4\<rparr>
        else Some \<lparr>width = 64, height = 32, colorChannels = 3\<rparr>),
      gen_texture_name = (\<lambda>cs. word_of_nat (length cs) + 1),
      uninit_material =
        \<lparr>ambientColor = Vec3 7 7 7, ambientStrength = 7, diffuseColor = Vec3 7 7 7,
         specularColor = Vec3 7 7 7, shininess = 7, OBJECT_MATERIAL.tag = []\<rparr>,
      uninit_vec3 = Vec3 7 7 7\<rparr>"

definition fresh_scene :: SceneManager where
  "fresh_scene = SceneManager_new (Some Map.empty) []"

text \<open>The nine loads of \<^verbatim>\<open>LoadSceneTextures\<close>, and seven more that fill the array.\<close>

definition scene_loads :: "(string \<times> string) list" where
  "scene_loads =
     [(''textures/desktop.jpg'', ''desk''), (''textures/keyboard.jpg'', ''keyboard''),
      (''textures/rest.jpg'', ''rest''), (''textures/notebook.jpg'', ''notebook''),
      (''textures/metal.jpg'', ''metal''), (''textures/wood.jpg'', ''wood''),
      (''textures/pencil.jpg'', ''pencil''), (''textures/metal1.jpg'', ''metal1''),
      (''textures/eraser.jpg'', ''eraser'')]"

definition more_loads :: "(string \<times> string) list" where
  "more_loads =
     [(''textures/a.jpg'', ''a''), (''textures/b.jpg'', ''b''), (''textures/c.jpg'', ''c''),
      (''textures/d.jpg'', ''d''), (''textures/e.jpg'', ''e''), (''textures/alpha.png'', ''f''),
      (''textures/g.jpg'', ''g'')]"

definition state_after :: "error + bool list \<times> SceneManager \<Rightarrow> SceneManager" where
  "state_after r = (case r of Inr (rs, s) \<Rightarrow> s | Inl e \<Rightarrow> fresh_scene)"

definition loaded_scene :: SceneManager where
  "loaded_scene = state_after (load_textures desk_platform scene_loads fresh_scene)"

definition full_scene :: SceneManager where
  "full_scene =
     state_after (load_textures desk_platform (scene_loads @ more_loads) fresh_scene)"

definition prepared_scene :: SceneManager where
  "prepared_scene =
     (case LoadSceneTextures desk_platform (DefineObjectMaterials fresh_scene) of
        Inr s \<Rightarrow> s
      | Inl e \<Rightarrow> fresh_scene)"

section \<open>Verification\<close>

text \<open>
  Each loop function is unfolded one step at a time in the proofs, never by the simplifier
  on its own.
\<close>

declare BindGLTextures_loop.simps [simp del]
declare FindTextureID_loop.simps [simp del]
declare FindTextureSlot_loop.simps [simp del]
declare FindMaterial_loop.simps [simp del]

subsection \<open>Matrix algebra\<close>

lemma vec4_add_assoc: "vec4_add (vec4_add u v) w = vec4_add u (vec4_add v w)"
  by (cases u; cases v; cases w) simp

lemma mat4_vec_add: "mat4_vec a (vec4_add u v) = vec4_add (mat4_vec a u) (mat4_vec a v)"
proof (cases a)
  case (Mat4 c0 c1 c2 c3)
  then show ?thesis
    by (cases c0; cases c1; cases c2; cases c3; cases u; cases v) (simp add: algebra_simps)
qed

lemma mat4_vec_scale: "mat4_vec a (vec4_scale u k) = vec4_scale (mat4_vec a u) k"
proof (cases a)
  case (Mat4 c0 c1 c2 c3)
  then show ?thesis
    by (cases c0; cases c1; cases c2; cases c3; cases u) (simp add: algebra_simps)
qed

lemma mat4_vec_mul: "mat4_vec (mat4_mul a b) v = mat4_vec a (mat4_vec b v)"
proof (cases b)
  case (Mat4 b0 b1 b2 b3)
  then show ?thesis
    by (cases v) (simp add: mat4_vec_add mat4_vec_scale)
qed

lemma mat4_mul_assoc: "mat4_mul (mat4_mul a b) c = mat4_mul a (mat4_mul b c)"
  by (cases c) (simp add: mat4_vec_mul)

text \<open>
  On the three coordinate axes the axis-angle matrix of glm is the textbook rotation, and
  glm's scaling and translation are the textbook ones.
\<close>

lemma glm_scale_is_scale_matrix: "glm_scale v = scale_matrix v"
  by (cases v) simp

lemma glm_translate_is_translation_matrix: "glm_translate v = translation_matrix v"
  by (cases v) simp

lemma glm_rotate_about_X: "glm_rotate (radians d) (Vec3 1 0 0) = rotateX_matrix d"
  by (simp add: glm_rotate_def rotateX_matrix_def Let_def)

lemma glm_rotate_about_Y: "glm_rotate (radians d) (Vec3 0 1 0) = rotateY_matrix d"
  by (simp add: glm_rotate_def rotateY_matrix_def Let_def)

lemma glm_rotate_about_Z: "glm_rotate (radians d) (Vec3 0 0 1) = rotateZ_matrix d"
  by (simp add: glm_rotate_def rotateZ_matrix_def Let_def)

lemmas glm_elementary =
  glm_scale_is_scale_matrix glm_translate_is_translation_matrix
  glm_rotate_about_X glm_rotate_about_Y glm_rotate_about_Z

subsection \<open>Transform composition\<close>

text \<open>
  Claim C3. For every scale vector, every three rotation angles in degrees and every
  translation vector, the matrix \<^verbatim>\<open>SetTransformations\<close> stores under the uniform
  \<^verbatim>\<open>model\<close> of a present shader manager is the product translation, rotation about Z,
  rotation about Y, rotation about X, scale of the elementary transform matrices, in this
  order; nothing else of the state changes.
\<close>

theorem SetTransformations_model_matrix:
  assumes "m_pShaderManager s = Some sh"
  shows "SetTransformations sc xr yr zr pos s =
     s\<lparr>m_pShaderManager := Some (sh(g_ModelName \<mapsto> UMat4
         (mat4_mul (mat4_mul (mat4_mul (mat4_mul (translation_matrix pos) (rotateZ_matrix zr))
            (rotateY_matrix yr)) (rotateX_matrix xr)) (scale_matrix sc))))\<rparr>"
  using assms by (simp add: SetTransformations_def setMat4Value_def glm_elementary)

theorem SetTransformations_model_matrix_witness:
  "m_pShaderManager fresh_scene = Some Map.empty \<and>
   m_pShaderManager (SetTransformations (Vec3 2 3 4) 0 0 90 (Vec3 1 2 3) fresh_scene) =
     Some [g_ModelName \<mapsto> UMat4
       (Mat4 (Vec4 0 2 0 0) (Vec4 (- 3) 0 0 0) (Vec4 0 0 4 0) (Vec4 1 2 3 1))]"
proof -
  have h: "m_pShaderManager fresh_scene = Some Map.empty"
    by (simp add: fresh_scene_def SceneManager_new_def)
  show ?thesis
    using h SetTransformations_model_matrix [OF h, of "Vec3 2 3 4" 0 0 90 "Vec3 1 2 3"]
    by (simp add: rotateX_matrix_def rotateY_matrix_def rotateZ_matrix_def radians_def)
qed

text \<open>
  The product does not depend on how it is bracketed, and it acts on a point by scaling
  first, then rotating about X, Y and Z, then translating.
\<close>

lemma model_matrix_right_nested:
  "mat4_mul (mat4_mul (mat4_mul (mat4_mul t rz) ry) rx) sc =
     mat4_mul t (mat4_mul rz (mat4_mul ry (mat4_mul rx sc)))"
  by (simp add: mat4_mul_assoc)

lemma model_matrix_on_point:
  "mat4_vec (mat4_mul (mat4_mul (mat4_mul (mat4_mul t rz) ry) rx) sc) v =
     mat4_vec t (mat4_vec rz (mat4_vec ry (mat4_vec rx (mat4_vec sc v))))"
  by (simp add: mat4_vec_mul)

text \<open>
  Claim C7. With scale \<open>(1, 1, 1)\<close>, rotations of \<open>0\<close> degrees about X, Y and Z and
  translation \<open>(0, 0, 0)\<close>, the model matrix \<^verbatim>\<open>SetTransformations\<close> composes and sends to
  a present shader manager is the 4 by 4 identity matrix.
\<close>

theorem SetTransformations_identity:
  assumes "m_pShaderManager s = Some sh"
  shows "SetTransformations (Vec3 1 1 1) 0 0 0 (Vec3 0 0 0) s =
     s\<lparr>m_pShaderManager := Some (sh(g_ModelName \<mapsto> UMat4 mat4_identity))\<rparr>"
  using assms
  by (simp add: SetTransformations_def setMat4Value_def glm_rotate_def radians_def
      mat4_identity_def)

theorem SetTransformations_identity_witness:
  "m_pShaderManager fresh_scene = Some Map.empty \<and>
   m_pShaderManager (SetTransformations (Vec3 1 1 1) 0 0 0 (Vec3 0 0 0) fresh_scene) =
     Some [''model'' \<mapsto> UMat4
       (Mat4 (Vec4 1 0 0 0) (Vec4 0 1 0 0) (Vec4 0 0 1 0) (Vec4 0 0 0 1))]"
proof -
  have h: "m_pShaderManager fresh_scene = Some Map.empty"
    by (simp add: fresh_scene_def SceneManager_new_def)
  show ?thesis
    using h SetTransformations_identity [OF h]
    by (simp add: mat4_identity_def g_ModelName_def)
qed

subsection \<open>Material lookup\<close>

lemma FindMaterial_loop_ambientColor:
  "ambientColor (FindMaterial_loop mats tag' index bFound material) = ambientColor material"
  by (induction mats tag' index bFound material rule: FindMaterial_loop.induct)
    (subst FindMaterial_loop.simps, simp)

lemma FindMaterial_loop_ambientStrength:
  "ambientStrength (FindMaterial_loop mats tag' index bFound material) =
     ambientStrength material"
  by (induction mats tag' index bFound material rule: FindMaterial_loop.induct)
    (subst FindMaterial_loop.simps, simp)

lemma FindMaterial_loop_tag:
  "OBJECT_MATERIAL.tag (FindMaterial_loop mats tag' index bFound material) =
     OBJECT_MATERIAL.tag material"
  by (induction mats tag' index bFound material rule: FindMaterial_loop.induct)
    (subst FindMaterial_loop.simps, simp)

lemma FindMaterial_loop_absent:
  "tag' \<notin> OBJECT_MATERIAL.tag ` set mats \<Longrightarrow>
     FindMaterial_loop mats tag' index bFound material = material"
  by (induction mats tag' index bFound material rule: FindMaterial_loop.induct)
    (subst FindMaterial_loop.simps, auto)

lemma FindMaterial_absent:
  "m_objectMaterials s \<noteq> [] \<Longrightarrow> tag' \<notin> OBJECT_MATERIAL.tag ` set (m_objectMaterials s) \<Longrightarrow>
     FindMaterial tag' material s = (True, material)"
  by (simp add: FindMaterial_def FindMaterial_loop_absent)

text \<open>
  Claim C9. \<^verbatim>\<open>FindMaterial\<close> writes only the fields \<open>diffuseColor\<close>, \<open>specularColor\<close>
  and \<open>shininess\<close> of the caller's material: after every call the material is the one
  passed in with at most these three fields replaced, and \<open>ambientColor\<close> and
  \<open>ambientStrength\<close> are the ones passed in, whether or not the tag is found.
\<close>

theorem FindMaterial_writes_three_fields:
  "(\<exists>d sp sh. snd (FindMaterial tag' material s) =
       material\<lparr>diffuseColor := d, specularColor := sp, shininess := sh\<rparr>) \<and>
   ambientColor (snd (FindMaterial tag' material s)) = ambientColor material \<and>
   ambientStrength (snd (FindMaterial tag' material s)) = ambientStrength material"
proof -
  let ?m = "snd (FindMaterial tag' material s)"
  have a: "ambientColor ?m = ambientColor material"
    by (simp add: FindMaterial_def FindMaterial_loop_ambientColor)
  have b: "ambientStrength ?m = ambientStrength material"
    by (simp add: FindMaterial_def FindMaterial_loop_ambientStrength)
  have c: "OBJECT_MATERIAL.tag ?m = OBJECT_MATERIAL.tag material"
    by (simp add: FindMaterial_def FindMaterial_loop_tag)
  have "?m = material\<lparr>diffuseColor := diffuseColor ?m, specularColor := specularColor ?m,
      shininess := shininess ?m\<rparr>"
    using a b c by (intro OBJECT_MATERIAL.equality) simp_all
  then show ?thesis using a b by blast
qed

text \<open>
  Claim C1. The specification has \<^verbatim>\<open>FindMaterial\<close> report "not found" for a tag that no
  entry of a non-empty material list carries. The code returns \<^verbatim>\<open>true\<close> after the loop
  whatever \<open>bFound\<close> holds: on the eight materials of the scene, the tag \<open>glass\<close> is
  absent, and the call returns \<open>True\<close> and leaves the caller's uninitialised material as it
  was.
\<close>

theorem FindMaterial_absent_tag_reports_true:
  "m_objectMaterials prepared_scene \<noteq> [] \<and>
   ''glass'' \<notin> OBJECT_MATERIAL.tag ` set (m_objectMaterials prepared_scene) \<and>
   FindMaterial ''glass'' (uninit_material desk_platform) prepared_scene =
     (True, uninit_material desk_platform)"
proof -
  have m: "map OBJECT_MATERIAL.tag (m_objectMaterials prepared_scene) =
     [''carbon'', ''plastic'', ''fabric'', ''note'', ''wood'', ''pencil'', ''metal'', ''rubber'']"
    by code_simp
  have ne: "m_objectMaterials prepared_scene \<noteq> []"
    using m by auto
  have ab: "''glass'' \<notin> OBJECT_MATERIAL.tag ` set (m_objectMaterials prepared_scene)"
    unfolding set_map [symmetric] m by simp
  show ?thesis
    using ne ab FindMaterial_absent [OF ne ab] by simp
qed

subsection \<open>Texture lookup\<close>

lemma FindTextureSlot_loop_absent:
  assumes "0 \<le> index" and "m_loadedTextures s \<le> int (length (m_textureIDs s))"
    and "\<forall>j. index \<le> j \<and> j < m_loadedTextures s \<longrightarrow>
           TEXTURE_INFO.tag (m_textureIDs s ! nat j) \<noteq> tag'"
  shows "FindTextureSlot_loop s tag' textureSlot index False = Inr textureSlot"
  using assms
proof (induction "nat (m_loadedTextures s - index)" arbitrary: index)
  case 0
  then show ?case
    by (subst FindTextureSlot_loop.simps) simp
next
  case (Suc n)
  then have lt: "index < m_loadedTextures s" by linarith
  have rd: "array_read (m_textureIDs s) index = Inr (m_textureIDs s ! nat index)"
    using lt Suc.prems by (simp add: array_read_def)
  have ne: "TEXTURE_INFO.tag (m_textureIDs s ! nat index) \<noteq> tag'"
    using lt Suc.prems by simp
  have "FindTextureSlot_loop s tag' textureSlot (index + 1) False = Inr textureSlot"
    using Suc.hyps Suc.prems by (intro Suc.hyps(1)) auto
  then show ?case
    using lt rd ne by (subst FindTextureSlot_loop.simps) simp
qed

lemma FindTextureSlot_loop_first:
  assumes "0 \<le> index" and "index \<le> k" and "k < m_loadedTextures s"
    and "m_loadedTextures s \<le> int (length (m_textureIDs s))"
    and "TEXTURE_INFO.tag (m_textureIDs s ! nat k) = tag'"
    and "\<forall>j. index \<le> j \<and> j < k \<longrightarrow> TEXTURE_INFO.tag (m_textureIDs s ! nat j) \<noteq> tag'"
  shows "FindTextureSlot_loop s tag' textureSlot index False = Inr k"
  using assms
proof (induction "nat (k - index)" arbitrary: index)
  case 0
  then have eq: "index = k" by linarith
  have rd: "array_read (m_textureIDs s) k = Inr (m_textureIDs s ! nat k)"
    using 0 eq by (simp add: array_read_def)
  have stop: "FindTextureSlot_loop s tag' k k True = Inr k"
    by (subst FindTextureSlot_loop.simps) simp
  show ?case
    using 0 eq rd stop by (subst FindTextureSlot_loop.simps) simp
next
  case (Suc n)
  then have lt: "index < k" by linarith
  have rd: "array_read (m_textureIDs s) index = Inr (m_textureIDs s ! nat index)"
    using lt Suc.prems by (simp add: array_read_def)
  have ne: "TEXTURE_INFO.tag (m_textureIDs s ! nat index) \<noteq> tag'"
    using lt Suc.prems by simp
  have "FindTextureSlot_loop s tag' textureSlot (index + 1) False = Inr k"
    using Suc.hyps Suc.prems lt by (intro Suc.hyps(1)) auto
  then show ?case
    using lt rd ne Suc.prems by (subst FindTextureSlot_loop.simps) simp
qed

lemma FindTextureSlot_loop_returns:
  "0 \<le> index \<Longrightarrow> m_loadedTextures s \<le> int (length (m_textureIDs s)) \<Longrightarrow>
     \<exists>r. FindTextureSlot_loop s tag' textureSlot index bFound = Inr r"
proof (induction s tag' textureSlot index bFound rule: FindTextureSlot_loop.induct)
  case (1 s tag' textureSlot index bFound)
  show ?case
  proof (cases "index < m_loadedTextures s \<and> bFound = False")
    case False
    then show ?thesis by (subst FindTextureSlot_loop.simps) auto
  next
    case True
    then have rd: "array_read (m_textureIDs s) index = Inr (m_textureIDs s ! nat index)"
      using "1.prems" by (simp add: array_read_def)
    show ?thesis
    proof (cases "TEXTURE_INFO.tag (m_textureIDs s ! nat index) = tag'")
      case True
      with \<open>index < m_loadedTextures s \<and> bFound = False\<close> rd "1.IH"(1) "1.prems"
      show ?thesis by (subst FindTextureSlot_loop.simps) simp
    next
      case False
      with \<open>index < m_loadedTextures s \<and> bFound = False\<close> rd "1.IH"(2) "1.prems"
      show ?thesis by (subst FindTextureSlot_loop.simps) simp
    qed
  qed
qed

lemma registered_tags_length:
  "m_loadedTextures s \<le> int (length (m_textureIDs s)) \<Longrightarrow>
     length (registered_tags s) = nat (m_loadedTextures s)"
  by (simp add: registered_tags_def)

lemma registered_tags_nth:
  "j < nat (m_loadedTextures s) \<Longrightarrow> j < length (m_textureIDs s) \<Longrightarrow>
     registered_tags s ! j = TEXTURE_INFO.tag (m_textureIDs s ! j)"
  by (simp add: registered_tags_def)

lemma FindTextureSlot_absent:
  assumes "m_loadedTextures s \<le> int (length (m_textureIDs s))"
    and "tag' \<notin> set (registered_tags s)"
  shows "FindTextureSlot tag' s = Inr (- 1)"
proof -
  have "TEXTURE_INFO.tag (m_textureIDs s ! nat j) \<noteq> tag'"
    if "0 \<le> j" and "j < m_loadedTextures s" for j
  proof -
    have a: "nat j < nat (m_loadedTextures s)" and b: "nat j < length (m_textureIDs s)"
      using that assms(1) by linarith+
    have "registered_tags s ! nat j \<in> set (registered_tags s)"
      using a assms(1) by (simp add: registered_tags_length)
    then show ?thesis
      using assms(2) registered_tags_nth [OF a b] by auto
  qed
  then show ?thesis
    unfolding FindTextureSlot_def
    using assms(1) by (intro FindTextureSlot_loop_absent) auto
qed

lemma FindTextureSlot_registered:
  assumes "m_loadedTextures s \<le> int (length (m_textureIDs s))"
    and "distinct (registered_tags s)" and "i < length (registered_tags s)"
  shows "FindTextureSlot (registered_tags s ! i) s = Inr (int i)"
proof -
  have len: "length (registered_tags s) = nat (m_loadedTextures s)"
    using assms(1) by (rule registered_tags_length)
  have nth: "registered_tags s ! j = TEXTURE_INFO.tag (m_textureIDs s ! j)"
    if "j < nat (m_loadedTextures s)" for j
    using that assms(1) by (intro registered_tags_nth) linarith+
  have other: "TEXTURE_INFO.tag (m_textureIDs s ! nat j) \<noteq> registered_tags s ! i"
    if "0 \<le> j" and "j < int i" for j
  proof -
    have "nat j < i" using that by linarith
    then have "registered_tags s ! nat j \<noteq> registered_tags s ! i"
      using assms(2,3) by (simp add: nth_eq_iff_index_eq)
    moreover have "nat j < nat (m_loadedTextures s)"
      using \<open>nat j < i\<close> assms(3) len by linarith
    ultimately show ?thesis using nth by simp
  qed
  have here: "TEXTURE_INFO.tag (m_textureIDs s ! nat (int i)) = registered_tags s ! i"
    using nth [of i] assms(3) len by simp
  show ?thesis
    unfolding FindTextureSlot_def
    using assms(1,3) len here other
    by (intro FindTextureSlot_loop_first) auto
qed

subsection \<open>Texture loads\<close>

lemma CreateGLTexture_False_keeps:
  "CreateGLTexture p filename tag' s = Inr (False, s') \<Longrightarrow>
     m_textureIDs s' = m_textureIDs s \<and> m_loadedTextures s' = m_loadedTextures s"
  by (auto simp add: CreateGLTexture_def Let_def split: option.splits if_splits sum.splits)

lemma CreateGLTexture_True_appends:
  assumes "CreateGLTexture p filename tag' s = Inr (True, s')"
  shows "0 \<le> m_loadedTextures s \<and> m_loadedTextures s < int (length (m_textureIDs s)) \<and>
     m_loadedTextures s' = m_loadedTextures s + 1 \<and>
     length (m_textureIDs s') = length (m_textureIDs s) \<and>
     registered_tags s' = registered_tags s @ [tag']"
proof -
  let ?n = "m_loadedTextures s" and ?ids = "m_textureIDs s"
  have rng: "0 \<le> ?n \<and> ?n < int (length ?ids)"
    using assms
    by (auto simp add: CreateGLTexture_def Let_def array_write_def
        split: option.splits if_splits sum.splits)
  then have ids': "m_textureIDs s' =
      ?ids[nat ?n := (?ids ! nat ?n)\<lparr>ID := gen_texture_name p (gl_calls s),
                                       TEXTURE_INFO.tag := tag'\<rparr>]"
    and n': "m_loadedTextures s' = ?n + 1"
    using assms
    by (auto simp add: CreateGLTexture_def Let_def array_write_def
        split: option.splits if_splits sum.splits)
  have lt: "nat ?n < length ?ids" using rng by linarith
  have "take (nat (?n + 1)) (m_textureIDs s') =
      take (nat ?n) ?ids @ [(?ids ! nat ?n)\<lparr>ID := gen_texture_name p (gl_calls s),
                                             TEXTURE_INFO.tag := tag'\<rparr>]"
    using rng lt unfolding ids'
    by (simp add: nat_add_distrib take_Suc_conv_app_nth)
  then have "registered_tags s' = registered_tags s @ [tag']"
    by (simp add: registered_tags_def n')
  then show ?thesis using rng n' ids' by simp
qed

lemma CreateGLTexture_shader:
  "CreateGLTexture p filename tag' s = Inr (b, s') \<Longrightarrow> m_pShaderManager s' = m_pShaderManager s"
  by (auto simp add: CreateGLTexture_def Let_def split: option.splits if_splits sum.splits)

lemma load_textures_all_true:
  assumes "load_textures p calls s = Inr (rs, s')" and "list_all (\<lambda>r. r) rs"
    and "0 \<le> m_loadedTextures s" and "m_loadedTextures s \<le> int (length (m_textureIDs s))"
  shows "m_loadedTextures s' = m_loadedTextures s + int (length calls) \<and>
     m_loadedTextures s' \<le> int (length (m_textureIDs s')) \<and>
     length (m_textureIDs s') = length (m_textureIDs s) \<and>
     registered_tags s' = registered_tags s @ map snd calls"
  using assms
proof (induction calls arbitrary: s rs)
  case Nil
  then show ?case by simp
next
  case (Cons c calls)
  obtain filename tag' where c: "c = (filename, tag')" by (cases c)
  from Cons.prems(1) obtain b s1 rs1 where
    one: "CreateGLTexture p filename tag' s = Inr (b, s1)"
    and rest: "load_textures p calls s1 = Inr (rs1, s')" and rs: "rs = b # rs1"
    by (auto simp add: c bind_err_def split: sum.splits prod.splits)
  have b: "b" and all1: "list_all (\<lambda>r. r) rs1"
    using Cons.prems(2) rs by simp_all
  note step = CreateGLTexture_True_appends [OF one [unfolded eqTrueI [OF b]]]
  have "m_loadedTextures s' = m_loadedTextures s1 + int (length calls) \<and>
     m_loadedTextures s' \<le> int (length (m_textureIDs s')) \<and>
     length (m_textureIDs s') = length (m_textureIDs s1) \<and>
     registered_tags s' = registered_tags s1 @ map snd calls"
    using step by (intro Cons.IH [OF rest all1]) auto
  then show ?case using step by (simp add: c)
qed

lemma load_textures_shader:
  "load_textures p calls s = Inr (rs, s') \<Longrightarrow> m_pShaderManager s' = m_pShaderManager s"
proof (induction calls arbitrary: s rs)
  case Nil
  then show ?case by simp
next
  case (Cons c calls)
  obtain filename tag' where c: "c = (filename, tag')" by (cases c)
  from Cons.prems obtain b s1 rs1 where
    one: "CreateGLTexture p filename tag' s = Inr (b, s1)"
    and rest: "load_textures p calls s1 = Inr (rs1, s')"
    by (auto simp add: c bind_err_def split: sum.splits prod.splits)
  show ?case
    using Cons.IH [OF rest] CreateGLTexture_shader [OF one] by simp
qed

lemma load_textures_within_capacity:
  assumes "\<forall>c \<in> set calls. \<exists>img. stbi_load p (fst c) = Some img \<and>
             (colorChannels img = 3 \<or> colorChannels img = 4)"
    and "0 \<le> m_loadedTextures s"
    and "m_loadedTextures s + int (length calls) \<le> int (length (m_textureIDs s))"
  shows "\<exists>s'. load_textures p calls s = Inr (replicate (length calls) True, s')"
  using assms
proof (induction calls arbitrary: s)
  case Nil
  then show ?case by simp
next
  case (Cons c calls)
  obtain filename tag' where c: "c = (filename, tag')" by (cases c)
  from Cons.prems(1) obtain img where img: "stbi_load p filename = Some img"
    and ch: "colorChannels img = 3 \<or> colorChannels img = 4"
    by (auto simp add: c)
  have rng: "0 \<le> m_loadedTextures s" "m_loadedTextures s < int (length (m_textureIDs s))"
    using Cons.prems by simp_all
  obtain s1 where one: "CreateGLTexture p filename tag' s = Inr (True, s1)"
    using img ch rng by (auto simp add: CreateGLTexture_def Let_def array_write_def)
  note step = CreateGLTexture_True_appends [OF one]
  have "\<exists>s'. load_textures p calls s1 = Inr (replicate (length calls) True, s')"
    using Cons.prems step by (intro Cons.IH) auto
  then show ?case
    using one by (auto simp add: c bind_err_def)
qed

lemma registered_tags_SceneManager_new [simp]:
  "registered_tags (SceneManager_new pShaderManager gl) = []"
  by (simp add: registered_tags_def SceneManager_new_def)

lemma loaded_scene_run:
  "load_textures desk_platform scene_loads fresh_scene = Inr (replicate 9 True, loaded_scene)"
proof -
  have "map_sum id fst (load_textures desk_platform scene_loads fresh_scene) =
      Inr (replicate 9 True)"
    by code_simp
  then show ?thesis
    unfolding loaded_scene_def state_after_def
    by (cases "load_textures desk_platform scene_loads fresh_scene") auto
qed

lemma loaded_scene_shader: "m_pShaderManager loaded_scene = Some Map.empty"
  using load_textures_shader [OF loaded_scene_run]
  by (simp add: fresh_scene_def SceneManager_new_def)

text \<open>
  Claim C2. When the image decodes with a channel count that is neither 3 nor 4,
  \<^verbatim>\<open>CreateGLTexture\<close> returns \<^verbatim>\<open>false\<close> and the registry is unchanged: the entries and
  the loaded-texture count are those before the call.
\<close>

theorem CreateGLTexture_unsupported_channels:
  assumes "stbi_load p filename = Some img"
    and "colorChannels img \<noteq> 3" and "colorChannels img \<noteq> 4"
  shows "\<exists>s'. CreateGLTexture p filename tag' s = Inr (False, s') \<and>
     m_textureIDs s' = m_textureIDs s \<and> m_loadedTextures s' = m_loadedTextures s"
  using assms by (simp add: CreateGLTexture_def Let_def)

theorem CreateGLTexture_unsupported_channels_witness:
  "stbi_load desk_platform ''textures/gray.png'' =
     Some \<lparr>width = 4, height = 4, colorChannels = 1\<rparr> \<and>
   (\<exists>s'. CreateGLTexture desk_platform ''textures/gray.png'' ''gray'' loaded_scene =
            Inr (False, s') \<and>
          m_textureIDs s' = m_textureIDs loaded_scene \<and> m_loadedTextures s' = 9)"
proof -
  have img: "stbi_load desk_platform ''textures/gray.png'' =
      Some \<lparr>width = 4, height = 4, colorChannels = 1\<rparr>"
    by (simp add: desk_platform_def)
  have n: "m_loadedTextures loaded_scene = 9"
    by code_simp
  show ?thesis
    using img n
      CreateGLTexture_unsupported_channels [OF img, of "''gray''" loaded_scene]
    by simp
qed

text \<open>
  Claim C4, as stated, promises a registration for every image that decodes with 3 or 4
  channels. On a registry that already holds sixteen textures the write goes to index 16,
  outside the array.
\<close>

theorem CreateGLTexture_full_registry_counterexample:
  "stbi_load desk_platform ''textures/wood.jpg'' =
     Some \<lparr>width = 64, height = 32, colorChannels = 3\<rparr> \<and>
   length (m_textureIDs full_scene) = 16 \<and> m_loadedTextures full_scene = 16 \<and>
   CreateGLTexture desk_platform ''textures/wood.jpg'' ''wood'' full_scene =
     Inl (OutOfBounds 16)"
proof -
  have img: "stbi_load desk_platform ''textures/wood.jpg'' =
      Some \<lparr>width = 64, height = 32, colorChannels = 3\<rparr>"
    by (simp add: desk_platform_def)
  have len: "length (m_textureIDs full_scene) = 16"
    by code_simp
  have n: "m_loadedTextures full_scene = 16"
    by code_simp
  have "CreateGLTexture desk_platform ''textures/wood.jpg'' ''wood'' full_scene =
      Inl (OutOfBounds 16)"
    using img len n by (simp add: CreateGLTexture_def Let_def array_write_def)
  then show ?thesis
    using img len n by simp
qed

text \<open>
  Claim C4, amended. When the image decodes with 3 or 4 channels and fewer than sixteen
  textures are loaded, \<^verbatim>\<open>CreateGLTexture\<close> returns \<^verbatim>\<open>true\<close>, the loaded-texture count
  grows by exactly one, the entry at the former count carries the given tag and the
  texture name of the driver, and every other entry is unchanged.
\<close>

theorem CreateGLTexture_registers_below_capacity:
  assumes "stbi_load p filename = Some img"
    and "colorChannels img = 3 \<or> colorChannels img = 4"
    and "length (m_textureIDs s) = 16"
    and "0 \<le> m_loadedTextures s" and "m_loadedTextures s < 16"
  shows "\<exists>s'. CreateGLTexture p filename tag' s = Inr (True, s') \<and>
     m_loadedTextures s' = m_loadedTextures s + 1 \<and>
     length (m_textureIDs s') = 16 \<and>
     TEXTURE_INFO.tag (m_textureIDs s' ! nat (m_loadedTextures s)) = tag' \<and>
     ID (m_textureIDs s' ! nat (m_loadedTextures s)) = gen_texture_name p (gl_calls s) \<and>
     (\<forall>i. i \<noteq> nat (m_loadedTextures s) \<longrightarrow> m_textureIDs s' ! i = m_textureIDs s ! i)"
  using assms by (auto simp add: CreateGLTexture_def Let_def array_write_def)

theorem CreateGLTexture_registers_below_capacity_witness:
  "stbi_load desk_platform ''textures/alpha.png'' =
     Some \<lparr>width = 8, height = 8, colorChannels = 4\<rparr> \<and>
   length (m_textureIDs loaded_scene) = 16 \<and> m_loadedTextures loaded_scene = 9 \<and>
   (\<exists>s'. CreateGLTexture desk_platform ''textures/alpha.png'' ''glass'' loaded_scene =
            Inr (True, s') \<and>
          m_loadedTextures s' = 10 \<and> TEXTURE_INFO.tag (m_textureIDs s' ! 9) = ''glass'' \<and>
          m_textureIDs s' ! 5 = m_textureIDs loaded_scene ! 5)"
proof -
  have img: "stbi_load desk_platform ''textures/alpha.png'' =
      Some \<lparr>width = 8, height = 8, colorChannels = 4\<rparr>"
    by (simp add: desk_platform_def)
  have ch: "colorChannels \<lparr>width = 8, height = 8, colorChannels = 4\<rparr> = 3 \<or>
      colorChannels \<lparr>width = 8, height = 8, colorChannels = 4\<rparr> = 4"
    by simp
  have len: "length (m_textureIDs loaded_scene) = 16"
    by code_simp
  have n: "m_loadedTextures loaded_scene = 9"
    by code_simp
  have lo: "0 \<le> m_loadedTextures loaded_scene" and hi: "m_loadedTextures loaded_scene < 16"
    using n by simp_all
  show ?thesis
    using img len n
      CreateGLTexture_registers_below_capacity [OF img ch len lo hi, of "''glass''"]
    by auto
qed

text \<open>
  Claim C5. The specification keeps the registry write inside the sixteen entries of the
  array. The code writes at \<open>m_loadedTextures\<close> without comparing it to the capacity: of
  seventeen loads of valid images on a fresh scene manager, the seventeenth writes at index
  16.
\<close>

theorem load_textures_seventeenth_out_of_bounds:
  "load_textures desk_platform
     (scene_loads @ more_loads @ [(''textures/wood.jpg'', ''seventeenth'')]) fresh_scene =
     Inl (OutOfBounds 16)"
proof -
  have "map_sum id fst (load_textures desk_platform
      (scene_loads @ more_loads @ [(''textures/wood.jpg'', ''seventeenth'')]) fresh_scene) =
      Inl (OutOfBounds 16)"
    by code_simp
  then show ?thesis
    by (cases "load_textures desk_platform
      (scene_loads @ more_loads @ [(''textures/wood.jpg'', ''seventeenth'')]) fresh_scene")
      auto
qed

text \<open>
  Claim C6. After a sequence of registrations that all returned \<^verbatim>\<open>true\<close> on a fresh
  scene manager, with pairwise distinct tags, \<^verbatim>\<open>FindTextureSlot\<close> returns for the tag of
  the \<open>i\<close>-th registration the index \<open>i\<close>, and \<open>-1\<close> for every tag that was not
  registered. (By \<open>load_textures_within_capacity\<close>, up to sixteen loads of valid images do
  all return \<^verbatim>\<open>true\<close>.)
\<close>

theorem FindTextureSlot_after_loads:
  assumes "load_textures p calls (SceneManager_new pShaderManager gl) = Inr (rs, s')"
    and "list_all (\<lambda>r. r) rs" and "distinct (map snd calls)"
  shows "(\<forall>i<length calls. FindTextureSlot (snd (calls ! i)) s' = Inr (int i)) \<and>
     (\<forall>t. t \<notin> snd ` set calls \<longrightarrow> FindTextureSlot t s' = Inr (- 1))"
proof -
  have "0 \<le> m_loadedTextures (SceneManager_new pShaderManager gl)"
    and "m_loadedTextures (SceneManager_new pShaderManager gl)
      \<le> int (length (m_textureIDs (SceneManager_new pShaderManager gl)))"
    by (simp_all add: SceneManager_new_def)
  note r = load_textures_all_true [OF assms(1,2) this]
  have inv: "m_loadedTextures s' \<le> int (length (m_textureIDs s'))"
    and tags: "registered_tags s' = map snd calls"
    using r by simp_all
  have "FindTextureSlot (snd (calls ! i)) s' = Inr (int i)" if "i < length calls" for i
    using FindTextureSlot_registered [OF inv, of i] assms(3) that by (simp add: tags)
  moreover have "FindTextureSlot t s' = Inr (- 1)" if "t \<notin> snd ` set calls" for t
    using FindTextureSlot_absent [OF inv, of t] that by (simp add: tags)
  ultimately show ?thesis by blast
qed

theorem FindTextureSlot_after_loads_witness:
  "load_textures desk_platform scene_loads (SceneManager_new (Some Map.empty) []) =
     Inr (replicate 9 True, loaded_scene) \<and>
   list_all (\<lambda>r. r) (replicate 9 True) \<and> distinct (map snd scene_loads) \<and>
   FindTextureSlot ''desk'' loaded_scene = Inr 0 \<and>
   FindTextureSlot ''wood'' loaded_scene = Inr 5 \<and>
   FindTextureSlot ''eraser'' loaded_scene = Inr 8 \<and>
   FindTextureSlot ''glass'' loaded_scene = Inr (- 1)"
proof -
  have run: "load_textures desk_platform scene_loads (SceneManager_new (Some Map.empty) []) =
      Inr (replicate 9 True, loaded_scene)"
    using loaded_scene_run by (simp add: fresh_scene_def)
  have all: "list_all (\<lambda>r. r) (replicate 9 True)"
    by code_simp
  have dist: "distinct (map snd scene_loads)"
    by (simp add: scene_loads_def)
  note slots = FindTextureSlot_after_loads [OF run all dist]
  have present: "FindTextureSlot (snd (scene_loads ! i)) loaded_scene = Inr (int i)"
    if "i < length scene_loads" for i
    using slots that by blast
  have absent: "FindTextureSlot t loaded_scene = Inr (- 1)" if "t \<notin> snd ` set scene_loads" for t
    using slots that by blast
  have "FindTextureSlot ''desk'' loaded_scene = Inr 0"
    using present [of 0] by (simp add: scene_loads_def)
  moreover have "FindTextureSlot ''wood'' loaded_scene = Inr 5"
    using present [of 5] by (simp add: scene_loads_def)
  moreover have "FindTextureSlot ''eraser'' loaded_scene = Inr 8"
    using present [of 8] by (simp add: scene_loads_def)
  moreover have "FindTextureSlot ''glass'' loaded_scene = Inr (- 1)"
    using absent [of "''glass''"] by (simp add: scene_loads_def)
  ultimately show ?thesis
    using run all dist by simp
qed

subsection \<open>Binding a texture for drawing\<close>

text \<open>
  Claim C10. For a tag that is not in the registry, \<^verbatim>\<open>SetShaderTexture\<close> on a present
  shader manager still sets the uniform \<^verbatim>\<open>bUseTexture\<close> to true (the integer 1) and the
  sampler uniform \<^verbatim>\<open>objectTexture\<close> to \<open>-1\<close>; it reports no error.
\<close>

theorem SetShaderTexture_absent_tag:
  assumes "m_pShaderManager s = Some sh"
    and "m_loadedTextures s \<le> int (length (m_textureIDs s))"
    and "textureTag \<notin> set (registered_tags s)"
  shows "SetShaderTexture textureTag s =
     Inr (s\<lparr>m_pShaderManager :=
              Some (sh(g_UseTextureName \<mapsto> UInt 1, g_TextureValueName \<mapsto> USampler2D (- 1)))\<rparr>)"
  using assms FindTextureSlot_absent [OF assms(2,3)]
  by (simp add: SetShaderTexture_def setIntValue_def setSampler2DValue_def)

theorem SetShaderTexture_absent_tag_witness:
  "m_pShaderManager loaded_scene = Some Map.empty \<and>
   m_loadedTextures loaded_scene \<le> int (length (m_textureIDs loaded_scene)) \<and>
   ''glass'' \<notin> set (registered_tags loaded_scene) \<and>
   SetShaderTexture ''glass'' loaded_scene =
     Inr (loaded_scene\<lparr>m_pShaderManager :=
            Some [''bUseTexture'' \<mapsto> UInt 1, ''objectTexture'' \<mapsto> USampler2D (- 1)]\<rparr>)"
proof -
  have sh: "m_pShaderManager loaded_scene = Some Map.empty"
    by (rule loaded_scene_shader)
  have inv: "m_loadedTextures loaded_scene \<le> int (length (m_textureIDs loaded_scene))"
    by code_simp
  have ab: "''glass'' \<notin> set (registered_tags loaded_scene)"
    by code_simp
  show ?thesis
    using sh inv ab SetShaderTexture_absent_tag [OF sh inv ab]
    by (simp add: g_UseTextureName_def g_TextureValueName_def)
qed

subsection \<open>The scene script\<close>

lemma SetShaderTexture_collections:
  "SetShaderTexture textureTag s = Inr s' \<Longrightarrow> collections s' = collections s"
  by (auto simp add: SetShaderTexture_def collections_def Let_def
      split: option.splits sum.splits)

lemma SetShaderMaterial_collections:
  "SetShaderMaterial p materialTag s = Inr s' \<Longrightarrow> collections s' = collections s"
  by (auto simp add: SetShaderMaterial_def collections_def
      split: option.splits if_splits prod.splits)

lemma SetTransformations_collections:
  "collections (SetTransformations sc xr yr zr pos s) = collections s"
  by (simp add: SetTransformations_def collections_def Let_def split: option.splits)

lemma SetShaderColor_collections:
  "collections (SetShaderColor r g b a s) = collections s"
  by (simp add: SetShaderColor_def collections_def Let_def split: option.splits)

lemma DrawMesh_collections: "collections (DrawMesh m s) = collections s"
  by (simp add: DrawMesh_def collections_def)

lemma keeps_assign:
  "keeps_collections (assign_scaleXYZ v)"
  "keeps_collections (assign_positionXYZ v)"
  "keeps_collections (assign_XrotationDegrees d)"
  "keeps_collections (assign_YrotationDegrees d)"
  "keeps_collections (assign_ZrotationDegrees d)"
  by (auto simp add: keeps_collections_def assign_scaleXYZ_def assign_positionXYZ_def
      assign_XrotationDegrees_def assign_YrotationDegrees_def assign_ZrotationDegrees_def)

lemma keeps_call:
  "keeps_collections call_SetTransformations"
  "keeps_collections (call_SetShaderColor r g b a)"
  "keeps_collections (call_SetShaderMaterial p materialTag)"
  "keeps_collections (call_SetShaderTexture textureTag)"
  "keeps_collections (call_DrawMesh m)"
  by (auto simp add: keeps_collections_def call_SetTransformations_def call_SetShaderColor_def
      call_SetShaderMaterial_def call_SetShaderTexture_def call_DrawMesh_def bind_err_def
      SetTransformations_collections SetShaderColor_collections DrawMesh_collections
      SetShaderMaterial_collections SetShaderTexture_collections split: sum.splits)

lemma run_stmts_keeps:
  "\<forall>c \<in> set cs. keeps_collections c \<Longrightarrow> run_stmts cs (l, s) = Inr (l', s') \<Longrightarrow>
     collections s' = collections s"
proof (induction cs arbitrary: l s)
  case Nil
  then show ?case by simp
next
  case (Cons c cs)
  from Cons.prems(2) obtain l1 s1 where one: "c (l, s) = Inr (l1, s1)"
    and rest: "run_stmts cs (l1, s1) = Inr (l', s')"
    by (auto simp add: bind_err_def split: sum.splits)
  have "collections s1 = collections s"
    using Cons.prems(1) one by (auto simp add: keeps_collections_def)
  moreover have "collections s' = collections s1"
    using Cons.prems(1) rest by (intro Cons.IH) auto
  ultimately show ?case by simp
qed

lemma RenderScene_body_keeps: "\<forall>c \<in> set (RenderScene_body p). keeps_collections c"
  by (simp add: RenderScene_body_def keeps_assign keeps_call)

text \<open>
  On a state with a shader manager and a loaded-texture count within the array, every
  statement of the script returns, and so does \<^verbatim>\<open>RenderScene\<close>.
\<close>

lemma runs_assign:
  "runs_ok (assign_scaleXYZ v)"
  "runs_ok (assign_positionXYZ v)"
  "runs_ok (assign_XrotationDegrees d)"
  "runs_ok (assign_YrotationDegrees d)"
  "runs_ok (assign_ZrotationDegrees d)"
  by (auto simp add: runs_ok_def assign_scaleXYZ_def assign_positionXYZ_def
      assign_XrotationDegrees_def assign_YrotationDegrees_def assign_ZrotationDegrees_def)

lemma SetTransformations_scene_ok:
  "scene_ok s \<Longrightarrow> scene_ok (SetTransformations sc xr yr zr pos s)"
  by (cases "m_pShaderManager s") (simp_all add: SetTransformations_def scene_ok_def Let_def)

lemma SetShaderColor_scene_ok: "scene_ok s \<Longrightarrow> scene_ok (SetShaderColor r g b a s)"
  by (cases "m_pShaderManager s") (simp_all add: SetShaderColor_def scene_ok_def Let_def)

lemma DrawMesh_scene_ok: "scene_ok s \<Longrightarrow> scene_ok (DrawMesh m s)"
  by (simp add: DrawMesh_def scene_ok_def)

lemma scene_ok_shader: "scene_ok s \<Longrightarrow> \<exists>sh. m_pShaderManager s = Some sh"
  by (cases "m_pShaderManager s") (simp_all add: scene_ok_def)

lemma SetShaderMaterial_returns:
  assumes "scene_ok s"
  shows "\<exists>s'. SetShaderMaterial p materialTag s = Inr s' \<and> scene_ok s'"
proof -
  from assms obtain sh where sh: "m_pShaderManager s = Some sh"
    using scene_ok_shader by blast
  show ?thesis
    using sh assms
    by (simp add: SetShaderMaterial_def scene_ok_def split: prod.splits)
qed

lemma SetShaderTexture_returns:
  assumes "scene_ok s"
  shows "\<exists>s'. SetShaderTexture textureTag s = Inr s' \<and> scene_ok s'"
proof -
  from assms obtain sh where sh: "m_pShaderManager s = Some sh"
    using scene_ok_shader by blast
  have "\<exists>r. FindTextureSlot_loop s textureTag (- 1) 0 False = Inr r"
    using assms by (intro FindTextureSlot_loop_returns) (simp_all add: scene_ok_def)
  then obtain r where "FindTextureSlot textureTag s = Inr r"
    by (auto simp add: FindTextureSlot_def)
  then show ?thesis
    using sh assms by (simp add: SetShaderTexture_def scene_ok_def)
qed

lemma runs_call_SetTransformations: "runs_ok call_SetTransformations"
  by (simp add: runs_ok_def call_SetTransformations_def SetTransformations_scene_ok)

lemma runs_call_SetShaderColor: "runs_ok (call_SetShaderColor r g b a)"
  by (simp add: runs_ok_def call_SetShaderColor_def SetShaderColor_scene_ok)

lemma runs_call_DrawMesh: "runs_ok (call_DrawMesh m)"
  by (simp add: runs_ok_def call_DrawMesh_def DrawMesh_scene_ok)

lemma runs_ok_lift:
  assumes "\<And>s. scene_ok s \<Longrightarrow> \<exists>s'. f s = Inr s' \<and> scene_ok s'"
  shows "runs_ok (\<lambda>(l, s). bind_err (f s) (\<lambda>s'. Inr (l, s')))"
  unfolding runs_ok_def
proof (intro allI impI)
  fix l :: locals and s :: SceneManager
  assume "scene_ok s"
  then obtain s' where "f s = Inr s'" and "scene_ok s'"
    using assms by blast
  then show "\<exists>l' s'. (\<lambda>(l, s). bind_err (f s) (\<lambda>s'. Inr (l, s'))) (l, s) = Inr (l', s') \<and>
      scene_ok s'"
    by (simp add: bind_err_def)
qed

lemma runs_call_SetShaderMaterial: "runs_ok (call_SetShaderMaterial p materialTag)"
  unfolding call_SetShaderMaterial_def
  by (rule runs_ok_lift) (rule SetShaderMaterial_returns)

lemma runs_call_SetShaderTexture: "runs_ok (call_SetShaderTexture textureTag)"
  unfolding call_SetShaderTexture_def
  by (rule runs_ok_lift) (rule SetShaderTexture_returns)

lemmas runs_call =
  runs_call_SetTransformations runs_call_SetShaderColor runs_call_DrawMesh
  runs_call_SetShaderMaterial runs_call_SetShaderTexture

lemma run_stmts_returns:
  "\<forall>c \<in> set cs. runs_ok c \<Longrightarrow> scene_ok s \<Longrightarrow>
     \<exists>l' s'. run_stmts cs (l, s) = Inr (l', s') \<and> scene_ok s'"
proof (induction cs arbitrary: l s)
  case Nil
  then show ?case by simp
next
  case (Cons c cs)
  have "runs_ok c"
    using Cons.prems(1) by simp
  then have "\<exists>l1 s1. c (l, s) = Inr (l1, s1) \<and> scene_ok s1"
    using Cons.prems(2) unfolding runs_ok_def by blast
  then obtain l1 s1 where one: "c (l, s) = Inr (l1, s1)" and ok: "scene_ok s1"
    by blast
  have "\<exists>l' s'. run_stmts cs (l1, s1) = Inr (l', s') \<and> scene_ok s'"
    using Cons.prems(1) ok by (intro Cons.IH) auto
  then show ?case using one by (simp add: bind_err_def)
qed

lemma RenderScene_body_runs: "\<forall>c \<in> set (RenderScene_body p). runs_ok c"
  by (simp add: RenderScene_body_def runs_assign runs_call)

lemma RenderScene_returns:
  assumes "scene_ok s"
  shows "\<exists>s'. RenderScene p s = Inr s'"
proof -
  obtain l' s' where
    "run_stmts (RenderScene_body p)
       (\<lparr>scaleXYZ = uninit_vec3 p, XrotationDegrees = 0, YrotationDegrees = 0,
         ZrotationDegrees = 0, positionXYZ = uninit_vec3 p\<rparr>, s) = Inr (l', s')"
    using run_stmts_returns [OF RenderScene_body_runs assms] by blast
  then show ?thesis by (simp add: RenderScene_def bind_err_def)
qed

text \<open>
  Claim C8. \<^verbatim>\<open>RenderScene\<close> leaves the texture registry (tags, texture names and the
  loaded-texture count) and the material list unchanged: whenever a call returns, both
  collections are those of the starting state.
\<close>

theorem RenderScene_keeps_collections:
  assumes "RenderScene p s = Inr s'"
  shows "m_textureIDs s' = m_textureIDs s \<and> m_loadedTextures s' = m_loadedTextures s \<and>
     m_objectMaterials s' = m_objectMaterials s"
proof -
  from assms obtain l' where
    "run_stmts (RenderScene_body p)
       (\<lparr>scaleXYZ = uninit_vec3 p, XrotationDegrees = 0, YrotationDegrees = 0,
         ZrotationDegrees = 0, positionXYZ = uninit_vec3 p\<rparr>, s) = Inr (l', s')"
    by (auto simp add: RenderScene_def bind_err_def split: sum.splits)
  then have "collections s' = collections s"
    by (rule run_stmts_keeps [OF RenderScene_body_keeps])
  then show ?thesis by (simp add: collections_def)
qed

theorem RenderScene_keeps_collections_witness:
  "\<exists>s'. RenderScene desk_platform prepared_scene = Inr s' \<and>
     m_textureIDs s' = m_textureIDs prepared_scene \<and>
     m_loadedTextures s' = 9 \<and>
     registered_tags s' =
       [''desk'', ''keyboard'', ''rest'', ''notebook'', ''metal'', ''wood'', ''pencil'',
        ''metal1'', ''eraser''] \<and>
     map OBJECT_MATERIAL.tag (m_objectMaterials s') =
       [''carbon'', ''plastic'', ''fabric'', ''note'', ''wood'', ''pencil'', ''metal'',
        ''rubber'']"
proof -
  have ok: "scene_ok prepared_scene"
    by code_simp
  have n: "m_loadedTextures prepared_scene = 9"
    by code_simp
  have tags: "registered_tags prepared_scene =
      [''desk'', ''keyboard'', ''rest'', ''notebook'', ''metal'', ''wood'', ''pencil'',
       ''metal1'', ''eraser'']"
    by code_simp
  have mats: "map OBJECT_MATERIAL.tag (m_objectMaterials prepared_scene) =
      [''carbon'', ''plastic'', ''fabric'', ''note'', ''wood'', ''pencil'', ''metal'',
       ''rubber'']"
    by code_simp
  obtain s' where run: "RenderScene desk_platform prepared_scene = Inr s'"
    using RenderScene_returns [OF ok] by blast
  show ?thesis
    using run n tags mats RenderScene_keeps_collections [OF run]
    by (simp add: registered_tags_def)
qed

end
